theory Spec2Isabelle
  imports Complex_Main
begin

section \<open>Python values shared by both modules\<close>

text \<open>
  The repository is two Python modules: \<^verbatim>\<open>freegs/picard.py\<close> (the nonlinear Picard
  driver) and \<^verbatim>\<open>freegs/equilibrium.py\<close> (the \<^verbatim>\<open>Equilibrium\<close> class with its linear
  solve). Floating-point numbers are modelled as \<^typ>\<open>real\<close>; the places where IEEE
  arithmetic differs from the reals in a way the control flow can see (division by zero)
  are written out. A two-dimensional numpy array is a list of rows, \<^verbatim>\<open>a[x,y]\<close> being
  \<open>a ! x ! y\<close>. Elementwise operations are taken on arrays of one shape, which is what
  the collaborators' contracts give (\<^verbatim>\<open>Jtor(R, Z, psi) -> [nx, ny]\<close>); numpy's
  broadcasting of unequal shapes is not part of the model. Exceptions are values of
  \<open>py_error\<close>; a call that can raise returns a sum whose left injection carries the
  exception.
\<close>

datatype py_error = TypeError | NameError | ZeroDivisionError | ValueError | IndexError

type_synonym field = "real list list"

definition fsub :: "field \<Rightarrow> field \<Rightarrow> field" where
  "fsub a b = map2 (map2 (\<lambda>u v. u - v)) a b"

definition fadd :: "field \<Rightarrow> field \<Rightarrow> field" where
  "fadd a b = map2 (map2 (\<lambda>u v. u + v)) a b"

definition fmul :: "field \<Rightarrow> field \<Rightarrow> field" where
  "fmul a b = map2 (map2 (\<lambda>u v. u * v)) a b"

definition fscale :: "real \<Rightarrow> field \<Rightarrow> field" where
  "fscale c a = map (map (\<lambda>u. c * u)) a"

definition fabs :: "field \<Rightarrow> field" where
  "fabs a = map (map abs) a"

text \<open>
  \<^verbatim>\<open>numpy.amax\<close> and \<^verbatim>\<open>numpy.amin\<close> reduce over every element and raise
  \<^verbatim>\<open>ValueError\<close> on an array without elements.
\<close>

definition amax :: "field \<Rightarrow> py_error + real" where
  "amax a = (case concat a of [] \<Rightarrow> Inl ValueError | x # xs \<Rightarrow> Inr (fold max xs x))"

definition amin :: "field \<Rightarrow> py_error + real" where
  "amin a = (case concat a of [] \<Rightarrow> Inl ValueError | x # xs \<Rightarrow> Inr (fold min xs x))"

section \<open>The Picard driver (picard.py)\<close>

text \<open>
  \<^verbatim>\<open>solve(eq, profiles, constrain, rtol, blend, ..., niter, sublevels, ncycle)\<close> is
  duck-typed in \<^verbatim>\<open>eq\<close>: it uses \<^verbatim>\<open>eq.solve(profiles, niter=, sublevels=, ncycle=)\<close> and
  \<^verbatim>\<open>eq.psi()\<close> only. The object is a state of type \<open>'e\<close> together with these two
  methods. A method that raises leaves the object in the state it had reached, so the
  failure carries that state. Plotting (\<^verbatim>\<open>show=True\<close>) is outside the model: the
  driver is taken at its default \<^verbatim>\<open>show=False\<close>.
\<close>

record ('e, 'p) eq_object =
  eq_solve :: "'p \<Rightarrow> (string \<times> int) list \<Rightarrow> 'e \<Rightarrow> (py_error \<times> 'e) + 'e"
  eq_psi :: "'e \<Rightarrow> field"

datatype 'e outcome = Raise py_error 'e | Break 'e | Continue 'e field

text \<open>
  Line 81, \<^verbatim>\<open>psi_relchange = psi_maxchange/(amax(psi) - amin(psi))\<close>, divides two numpy
  scalars: a zero divisor gives \<^verbatim>\<open>inf\<close> or \<^verbatim>\<open>nan\<close> and a warning, not an exception, and
  line 86 then compares \<^verbatim>\<open>inf < rtol\<close> or \<^verbatim>\<open>nan < rtol\<close>, which is false. The numerator
  is a maximum of absolute values, so it is never negative.
\<close>

definition relchange_below :: "real \<Rightarrow> real \<Rightarrow> real \<Rightarrow> bool" where
  "relchange_below psi_maxchange width rtol = (width \<noteq> 0 \<and> psi_maxchange / width < rtol)"

definition apply_constrain :: "('e \<Rightarrow> 'e) option \<Rightarrow> 'e \<Rightarrow> 'e" where
  "apply_constrain constrain eq = (case constrain of None \<Rightarrow> eq | Some c \<Rightarrow> c eq)"

definition solve_kwargs :: "int \<Rightarrow> int \<Rightarrow> int \<Rightarrow> (string \<times> int) list" where
  "solve_kwargs niter sublevels ncycle =
     [(''niter'', niter), (''sublevels'', sublevels), (''ncycle'', ncycle)]"

text \<open>One pass through the body of \<^verbatim>\<open>while True\<close> (lines 69 to 93).\<close>

definition picard_iteration ::
  "('e, 'p) eq_object \<Rightarrow> 'p \<Rightarrow> ('e \<Rightarrow> 'e) option \<Rightarrow> real \<Rightarrow> real \<Rightarrow>
     (string \<times> int) list \<Rightarrow> 'e \<Rightarrow> field \<Rightarrow> 'e outcome" where
  "picard_iteration ob profiles constrain rtol blend kw eq psi =
     (let psi_last = psi in
      case eq_solve ob profiles kw eq of
        Inl (err, eq') \<Rightarrow> Raise err eq'
      | Inr eq1 \<Rightarrow>
          (let psi1 = eq_psi ob eq1;
               psi_last = fsub psi_last psi1
           in case amax (fabs psi_last) of
                Inl err \<Rightarrow> Raise err eq1
              | Inr psi_maxchange \<Rightarrow>
                  (case amax psi1 of
                     Inl err \<Rightarrow> Raise err eq1
                   | Inr hi \<Rightarrow>
                       (case amin psi1 of
                          Inl err \<Rightarrow> Raise err eq1
                        | Inr lo \<Rightarrow>
                            if relchange_below psi_maxchange (hi - lo) rtol then Break eq1
                            else
                              (let eq2 = apply_constrain constrain eq1;
                                   psi2 = fadd (fscale (1 - blend) (eq_psi ob eq2))
                                               (fscale blend psi_last)
                               in Continue eq2 psi2)))))"

text \<open>
  The loop has no bound, so the driver is a partial function: \<open>None\<close> is a run that
  never returns, \<open>Some (Inl (err, eq))\<close> a run that left by an exception with the object
  in state \<open>eq\<close>, \<open>Some (Inr eq)\<close> a run that returned.
\<close>

partial_function (option) picard_loop ::
  "('e, 'p) eq_object \<Rightarrow> 'p \<Rightarrow> ('e \<Rightarrow> 'e) option \<Rightarrow> real \<Rightarrow> real \<Rightarrow>
     (string \<times> int) list \<Rightarrow> 'e \<Rightarrow> field \<Rightarrow> ((py_error \<times> 'e) + 'e) option" where
  "picard_loop ob profiles constrain rtol blend kw eq psi =
     (case picard_iteration ob profiles constrain rtol blend kw eq psi of
        Raise err eq' \<Rightarrow> Some (Inl (err, eq'))
      | Break eq' \<Rightarrow> Some (Inr eq')
      | Continue eq' psi' \<Rightarrow> picard_loop ob profiles constrain rtol blend kw eq' psi')"

definition picard_solve ::
  "('e, 'p) eq_object \<Rightarrow> 'p \<Rightarrow> ('e \<Rightarrow> 'e) option \<Rightarrow> real \<Rightarrow> real \<Rightarrow>
     int \<Rightarrow> int \<Rightarrow> int \<Rightarrow> 'e \<Rightarrow> ((py_error \<times> 'e) + 'e) option" where
  "picard_solve ob profiles constrain rtol blend niter sublevels ncycle eq =
     (let eq0 = apply_constrain constrain eq;
          psi = eq_psi ob eq0
      in picard_loop ob profiles constrain rtol blend
           (solve_kwargs niter sublevels ncycle) eq0 psi)"

text \<open>
  The outcome of the loop after at most \<open>n + 1\<close> passes: the first pass that does not
  continue decides it.
\<close>

fun picard_passes ::
  "nat \<Rightarrow> ('e, 'p) eq_object \<Rightarrow> 'p \<Rightarrow> ('e \<Rightarrow> 'e) option \<Rightarrow> real \<Rightarrow> real \<Rightarrow>
     (string \<times> int) list \<Rightarrow> 'e \<Rightarrow> field \<Rightarrow> 'e outcome" where
  "picard_passes 0 ob profiles constrain rtol blend kw eq psi =
     picard_iteration ob profiles constrain rtol blend kw eq psi"
| "picard_passes (Suc n) ob profiles constrain rtol blend kw eq psi =
     (case picard_iteration ob profiles constrain rtol blend kw eq psi of
        Continue eq' psi' \<Rightarrow> picard_passes n ob profiles constrain rtol blend kw eq' psi'
      | r \<Rightarrow> r)"

text \<open>What a pass that does not continue makes the loop return.\<close>

definition finished :: "'e outcome \<Rightarrow> ((py_error \<times> 'e) + 'e) option" where
  "finished r = (case r of Raise err e \<Rightarrow> Some (Inl (err, e)) | Break e \<Rightarrow> Some (Inr e)
      | Continue e psi \<Rightarrow> None)"

subsection \<open>The iteration as the specification states it\<close>





subsection \<open>Objects to run the driver on\<close>

text \<open>
  Small objects that have the interface the driver asks for; their \<^verbatim>\<open>solve\<close> accepts
  the three keywords. The state of the first is the total flux itself, which \<^verbatim>\<open>solve\<close>
  replaces by a fixed field. The state of the other two is one number \<open>x\<close>, their total
  flux is \<open>[[0, x]]\<close>, and \<^verbatim>\<open>solve\<close> sets \<open>x\<close> to 1 or doubles it.
\<close>

definition constant_object :: "field \<Rightarrow> (field, unit) eq_object" where
  "constant_object target = \<lparr>eq_solve = (\<lambda>p kw e. Inr target), eq_psi = (\<lambda>e. e)\<rparr>"



text \<open>
  To observe the order of the calls the driver makes, an object and a constraint
  callable are wrapped so that every call of \<^verbatim>\<open>eq.solve\<close> and every call of
  \<^verbatim>\<open>constrain(eq)\<close> appends an event to a log carried with the state.
\<close>

datatype event = Constrain | Solve

definition logged_object :: "('e, 'p) eq_object \<Rightarrow> ('e \<times> event list, 'p) eq_object" where
  "logged_object ob =
     \<lparr>eq_solve = (\<lambda>p kw (e, t). case eq_solve ob p kw e of
                      Inl (err, e') \<Rightarrow> Inl (err, (e', t @ [Solve]))
                    | Inr e' \<Rightarrow> Inr (e', t @ [Solve])),
      eq_psi = (\<lambda>(e, t). eq_psi ob e)\<rparr>"

definition logged_constrain :: "('e \<Rightarrow> 'e) \<Rightarrow> 'e \<times> event list \<Rightarrow> 'e \<times> event list" where
  "logged_constrain c = (\<lambda>(e, t). (c e, t @ [Constrain]))"

section \<open>Calling a Python function\<close>

text \<open>
  Python binds the arguments of a call to the parameters of the function before the body
  runs, and raises \<^verbatim>\<open>TypeError\<close> when it cannot: more positional arguments than
  parameters, a keyword that names no parameter, a parameter given twice, or a parameter
  without default left unbound. A method called on an instance receives the instance as
  its first positional argument, whatever the first parameter is called. Inside the body
  a name is looked up among the parameters and then among the names of the module; a
  name found in neither raises \<^verbatim>\<open>NameError\<close>.
\<close>

datatype pyval = Instance | Object | IntVal int | RealVal real | BoolVal bool

fun bind_keywords ::
  "string list \<Rightarrow> (string \<times> pyval) list \<Rightarrow> (string \<times> pyval) list \<Rightarrow>
     py_error + (string \<times> pyval) list" where
  "bind_keywords params bound [] = Inr bound"
| "bind_keywords params bound ((k, v) # kws) =
     (if k \<notin> set params then Inl TypeError
      else if k \<in> set (map fst bound) then Inl TypeError
      else bind_keywords params (bound @ [(k, v)]) kws)"

definition bind_args ::
  "string list \<Rightarrow> (string \<times> pyval) list \<Rightarrow> pyval list \<Rightarrow> (string \<times> pyval) list \<Rightarrow>
     py_error + (string \<times> pyval) list" where
  "bind_args params defaults args kwargs =
     (if length params < length args then Inl TypeError
      else case bind_keywords params (zip params args) kwargs of
             Inl err \<Rightarrow> Inl err
           | Inr bound \<Rightarrow>
               if \<exists>p \<in> set params. p \<notin> set (map fst bound) \<and> p \<notin> set (map fst defaults)
               then Inl TypeError
               else Inr (bound @ filter (\<lambda>(p, v). p \<notin> set (map fst bound)) defaults))"

definition lookup_name ::
  "(string \<times> pyval) list \<Rightarrow> (string \<times> pyval) list \<Rightarrow> string \<Rightarrow> py_error + pyval" where
  "lookup_name locals globals n =
     (case map_of locals n of
        Some v \<Rightarrow> Inr v
      | None \<Rightarrow> (case map_of globals n of Some v \<Rightarrow> Inr v | None \<Rightarrow> Inl NameError))"

section \<open>The Equilibrium class (equilibrium.py)\<close>

subsection \<open>Arrays\<close>

definition nonempty :: "field \<Rightarrow> bool" where
  "nonempty a = (a \<noteq> [] \<and> (\<forall>r \<in> set a. r \<noteq> []))"

definition rect :: "nat \<Rightarrow> nat \<Rightarrow> field \<Rightarrow> bool" where
  "rect nx ny a = (length a = nx \<and> (\<forall>r \<in> set a. length r = ny))"

definition shape :: "field \<Rightarrow> nat \<times> nat" where
  "shape a = (length a, case a of [] \<Rightarrow> 0 | r # _ \<Rightarrow> length r)"

text \<open>\<^verbatim>\<open>a[:,0]\<close> and \<^verbatim>\<open>a[0,:]\<close>.\<close>

definition column0 :: "field \<Rightarrow> real list" where
  "column0 a = map hd a"

definition row0 :: "field \<Rightarrow> real list" where
  "row0 a = hd a"

text \<open>
  \<^verbatim>\<open>dst[i,:] = src[i,:]\<close> and \<^verbatim>\<open>dst[:,j] = src[:,j]\<close>, for arrays of one shape.
\<close>

definition copy_row :: "nat \<Rightarrow> field \<Rightarrow> field \<Rightarrow> field" where
  "copy_row i src dst = dst[i := src ! i]"

definition copy_column :: "nat \<Rightarrow> field \<Rightarrow> field \<Rightarrow> field" where
  "copy_column j src dst = map2 (\<lambda>d s. d[j := s ! j]) dst src"

text \<open>
  The four assignments \<^verbatim>\<open>a[0,:] = 0.0; a[:,0] = 0.0; a[-1,:] = 0.0; a[:,-1] = 0.0\<close>
  of lines 81 to 84.
\<close>

definition zero_row :: "nat \<Rightarrow> field \<Rightarrow> field" where
  "zero_row i a = a[i := map (\<lambda>v. 0) (a ! i)]"

definition zero_column :: "nat \<Rightarrow> field \<Rightarrow> field" where
  "zero_column j a = map (\<lambda>r. r[j := 0]) a"

definition zero_edges :: "field \<Rightarrow> field" where
  "zero_edges a =
     (let nx = length a; ny = length (hd a);
          a1 = zero_row 0 a;
          a2 = zero_column 0 a1;
          a3 = zero_row (nx - 1) a2;
          a4 = zero_column (ny - 1) a3
      in a4)"

text \<open>
  Lines 273 to 276: the first and last row and the first and last column of \<open>rhs\<close> are
  overwritten with those of the plasma flux, in this order.
\<close>

definition copy_boundary :: "field \<Rightarrow> field \<Rightarrow> field" where
  "copy_boundary plasma_psi' rhs =
     (let nx = length rhs; ny = length (hd rhs);
          rhs1 = copy_row 0 plasma_psi' rhs;
          rhs2 = copy_column 0 plasma_psi' rhs1;
          rhs3 = copy_row (nx - 1) plasma_psi' rhs2;
          rhs4 = copy_column (ny - 1) plasma_psi' rhs3
      in rhs4)"




fun map_result :: "('a \<Rightarrow> py_error + 'b) \<Rightarrow> 'a list \<Rightarrow> py_error + 'b list" where
  "map_result f [] = Inr []"
| "map_result f (x # xs) =
     (case f x of
        Inl err \<Rightarrow> Inl err
      | Inr y \<Rightarrow> (case map_result f xs of Inl err \<Rightarrow> Inl err | Inr ys \<Rightarrow> Inr (y # ys)))"

subsection \<open>Collaborators\<close>

text \<open>
  The coil set (\<^verbatim>\<open>machine.py\<close>), the profiles (\<^verbatim>\<open>jtor.py\<close>), the boundary functions
  (\<^verbatim>\<open>boundary.py\<close>), the operator generator (\<^verbatim>\<open>gradshafranov.py\<close>) and the multigrid
  solver (\<^verbatim>\<open>multigrid.py\<close>) are not among the sources, and the spline and the Romberg
  rule come from scipy. An object of one of them is a record of its methods; the
  functions and the constant \<^verbatim>\<open>mu0\<close> are collected in a record that every operation of
  the class takes as its first argument. Each of them may raise.
\<close>

record 'g machine =
  createPsiGreens :: "field \<Rightarrow> field \<Rightarrow> 'g"
  calcPsiFromGreens :: "'g \<Rightarrow> field"
  machine_Br :: "real \<Rightarrow> real \<Rightarrow> real"
  machine_Bz :: "real \<Rightarrow> real \<Rightarrow> real"

record profiles_object =
  profiles_Jtor :: "field \<Rightarrow> field \<Rightarrow> field \<Rightarrow> py_error + field"

datatype generator = GSsparse real real real real

type_synonym linear_solver = "field \<Rightarrow> field \<Rightarrow> py_error + field"

text \<open>
  The docstring of \<^verbatim>\<open>__init__\<close>: \<^verbatim>\<open>boundary\<close> is either \<^verbatim>\<open>freeBoundary\<close> or
  \<^verbatim>\<open>fixedBoundary\<close>.
\<close>

datatype boundary = freeBoundary | fixedBoundary

record ('g, 's, 'c) equilibrium =
  tokamak :: "'g machine"
  applyBoundary :: boundary
  Rmin :: real
  Rmax :: real
  Zmin :: real
  Zmax :: real
  gridR :: field
  gridZ :: field
  plasma_psi :: field
  psi_func :: 's
  pgreen :: 'g
  current :: real
  solver :: linear_solver
  profiles :: "profiles_object option"
  control :: "'c option"

record ('g, 's, 'c) library =
  RectBivariateSpline :: "real list \<Rightarrow> real list \<Rightarrow> field \<Rightarrow> py_error + 's"
  spline_call :: "'s \<Rightarrow> real \<Rightarrow> real \<Rightarrow> nat \<Rightarrow> nat \<Rightarrow> py_error + field"
  romb :: "real list \<Rightarrow> py_error + real"
  createVcycle ::
    "int \<Rightarrow> int \<Rightarrow> generator \<Rightarrow> pyval \<Rightarrow> pyval \<Rightarrow> pyval \<Rightarrow> pyval \<Rightarrow> py_error + linear_solver"
  multigrid_interpolate :: "field \<Rightarrow> py_error + field"
  multigrid_restrict :: "field \<Rightarrow> py_error + field"
  mu0 :: real
  freeBoundary_function ::
    "('g, 's, 'c) equilibrium \<Rightarrow> field \<Rightarrow> field \<Rightarrow> py_error + field"

text \<open>
  Modelled from the spec: the function \<^verbatim>\<open>fixedBoundary\<close> of the missing module
  \<^verbatim>\<open>boundary.py\<close>. Section 4.2: it "forces psi = 0 on all four domain edges,
  unconditionally", and a boundary function "mutates the plasma-psi edge values in
  place". The result is the content of the array after the call.
\<close>

definition fixedBoundary_function ::
  "('g, 's, 'c) equilibrium \<Rightarrow> field \<Rightarrow> field \<Rightarrow> py_error + field" where
  "fixedBoundary_function eq Jtor plasma_psi' = Inr (zero_edges plasma_psi')"

definition call_boundary ::
  "('g, 's, 'c) library \<Rightarrow> boundary \<Rightarrow> ('g, 's, 'c) equilibrium \<Rightarrow> field \<Rightarrow> field \<Rightarrow>
     py_error + field" where
  "call_boundary lib b eq Jtor plasma_psi' =
     (case b of
        freeBoundary \<Rightarrow> freeBoundary_function lib eq Jtor plasma_psi'
      | fixedBoundary \<Rightarrow> fixedBoundary_function eq Jtor plasma_psi')"

subsection \<open>Construction\<close>



text \<open>
  Line 295, the second half of \<^verbatim>\<open>_updatePlasmaPsi\<close>: the spline over
  \<^verbatim>\<open>self.R[:,0]\<close>, \<^verbatim>\<open>self.Z[0,:]\<close> and the new flux. The slices raise \<^verbatim>\<open>IndexError\<close> on
  a grid without points.
\<close>

definition interpolator ::
  "('g, 's, 'c) library \<Rightarrow> field \<Rightarrow> field \<Rightarrow> field \<Rightarrow> py_error + 's" where
  "interpolator lib R Z plasma_psi' =
     (if \<not> nonempty R \<or> \<not> nonempty Z then Inl IndexError
      else RectBivariateSpline lib (column0 R) (row0 Z) plasma_psi')"


subsection \<open>Methods\<close>

text \<open>
  A method that raises leaves the object as far as it had changed it: the failure
  carries that state.
\<close>

definition Equilibrium_updatePlasmaPsi ::
  "('g, 's, 'c) library \<Rightarrow> field \<Rightarrow> ('g, 's, 'c) equilibrium \<Rightarrow>
     (py_error \<times> ('g, 's, 'c) equilibrium) + ('g, 's, 'c) equilibrium" where
  "Equilibrium_updatePlasmaPsi lib plasma_psi' eq =
     (let eq1 = eq\<lparr>plasma_psi := plasma_psi'\<rparr>
      in case interpolator lib (gridR eq1) (gridZ eq1) plasma_psi' of
           Inl err \<Rightarrow> Inl (err, eq1)
         | Inr spline \<Rightarrow> Inr (eq1\<lparr>psi_func := spline\<rparr>))"

definition Equilibrium_psi :: "('g, 's, 'c) equilibrium \<Rightarrow> field" where
  "Equilibrium_psi eq = fadd (plasma_psi eq) (calcPsiFromGreens (tokamak eq) (pgreen eq))"

definition Equilibrium_plasmaCurrent :: "('g, 's, 'c) equilibrium \<Rightarrow> real" where
  "Equilibrium_plasmaCurrent eq = current eq"





text \<open>
  \<^verbatim>\<open>romb(romb(Jtor))\<close>: the inner call integrates along the last axis, one value for each
  row, the outer call integrates these.
\<close>

definition romb_romb :: "('g, 's, 'c) library \<Rightarrow> field \<Rightarrow> py_error + real" where
  "romb_romb lib Jtor =
     (case map_result (romb lib) Jtor of Inl err \<Rightarrow> Inl err | Inr rows \<Rightarrow> romb lib rows)"

text \<open>Lines 270 to 276: the right-hand side handed to the linear solver.\<close>

definition right_hand_side :: "real \<Rightarrow> field \<Rightarrow> field \<Rightarrow> field \<Rightarrow> field" where
  "right_hand_side mu R Jtor plasma_psi' =
     copy_boundary plasma_psi' (fmul (fscale (- mu) R) Jtor)"

text \<open>
  The body of \<^verbatim>\<open>solve(self, profiles)\<close>, lines 259 to 286. The boundary function
  changes the array \<^verbatim>\<open>self.plasma_psi\<close> in place (its result is not used, and line 273
  reads the edges back from the array), so the object holds the changed flux from line
  267 on, while \<^verbatim>\<open>psi_func\<close> is rebuilt on line 281 only.
\<close>

definition Equilibrium_solve ::
  "('g, 's, 'c) library \<Rightarrow> profiles_object \<Rightarrow> ('g, 's, 'c) equilibrium \<Rightarrow>
     (py_error \<times> ('g, 's, 'c) equilibrium) + ('g, 's, 'c) equilibrium" where
  "Equilibrium_solve lib profiles' eq =
     (let eq1 = eq\<lparr>profiles := Some profiles'\<rparr>
      in case profiles_Jtor profiles' (gridR eq1) (gridZ eq1) (Equilibrium_psi eq1) of
           Inl err \<Rightarrow> Inl (err, eq1)
         | Inr Jtor \<Rightarrow>
             (case call_boundary lib (applyBoundary eq1) eq1 Jtor (plasma_psi eq1) of
                Inl err \<Rightarrow> Inl (err, eq1)
              | Inr edged \<Rightarrow>
                  (let eq2 = eq1\<lparr>plasma_psi := edged\<rparr>
                   in if \<not> nonempty (fmul (fscale (- mu0 lib) (gridR eq2)) Jtor)
                           \<or> \<not> nonempty (plasma_psi eq2)
                      then Inl (IndexError, eq2)
                      else
                        (let rhs = right_hand_side (mu0 lib) (gridR eq2) Jtor (plasma_psi eq2)
                         in case solver eq2 (plasma_psi eq2) rhs of
                              Inl err \<Rightarrow> Inl (err, eq2)
                            | Inr solution \<Rightarrow>
                                (case Equilibrium_updatePlasmaPsi lib solution eq2 of
                                   Inl (err, eq3) \<Rightarrow> Inl (err, eq3)
                                 | Inr eq3 \<Rightarrow>
                                     if length (gridR eq3) < 2 \<or> length (hd (gridZ eq3)) < 2
                                     then Inl (IndexError, eq3)
                                     else
                                       (let dR = gridR eq3 ! 1 ! 0 - gridR eq3 ! 0 ! 0;
                                            dZ = gridZ eq3 ! 0 ! 1 - gridZ eq3 ! 0 ! 0
                                        in case romb_romb lib Jtor of
                                             Inl err \<Rightarrow> Inl (err, eq3)
                                           | Inr integral \<Rightarrow>
                                               Inr (eq3\<lparr>current := integral * dR * dZ\<rparr>)))))))"

text \<open>
  The call \<^verbatim>\<open>eq.solve(profiles, **kwargs)\<close>: the signature is
  \<^verbatim>\<open>def solve(self, profiles)\<close>, without defaults.
\<close>

definition Equilibrium_solve_call ::
  "('g, 's, 'c) library \<Rightarrow> profiles_object \<Rightarrow> (string \<times> int) list \<Rightarrow>
     ('g, 's, 'c) equilibrium \<Rightarrow>
     (py_error \<times> ('g, 's, 'c) equilibrium) + ('g, 's, 'c) equilibrium" where
  "Equilibrium_solve_call lib profiles' kwargs eq =
     (case bind_args [''self'', ''profiles''] [] [Instance, Object]
             (map (\<lambda>(k, v). (k, IntVal v)) kwargs) of
        Inl err \<Rightarrow> Inl (err, eq)
      | Inr bound \<Rightarrow> Equilibrium_solve lib profiles' eq)"

text \<open>The Equilibrium as the object the Picard driver works on.\<close>

definition Equilibrium_object ::
  "('g, 's, 'c) library \<Rightarrow> (('g, 's, 'c) equilibrium, profiles_object) eq_object" where
  "Equilibrium_object lib = \<lparr>eq_solve = Equilibrium_solve_call lib, eq_psi = Equilibrium_psi\<rparr>"

text \<open>
  The names bound at module level when \<^verbatim>\<open>equilibrium.py\<close> is imported: its imports,
  the class and the two functions. What they are bound to plays no part.
\<close>

definition module_globals :: "(string \<times> pyval) list" where
  "module_globals = map (\<lambda>n. (n, Object))
     [''meshgrid'', ''linspace'', ''exp'', ''zeros'', ''nditer'', ''interpolate'', ''romb'',
      ''quad'', ''fixedBoundary'', ''freeBoundary'', ''mu0'', ''GSsparse'', ''multigrid'',
      ''machine'', ''Equilibrium'', ''refine'', ''coarsen'']"

text \<open>
  \<^verbatim>\<open>def setSolverVcycle(nlevels=1, ncycle=1, niter=1, direct=True)\<close>, lines 111 to 129:
  there is no \<^verbatim>\<open>self\<close> among the parameters. The body reads, in this order, the names
  \<^verbatim>\<open>GSsparse\<close>, \<^verbatim>\<open>Rmin\<close>, \<^verbatim>\<open>Rmax\<close>, \<^verbatim>\<open>Zmin\<close>, \<^verbatim>\<open>Zmax\<close>, then \<^verbatim>\<open>self\<close> (for
  \<^verbatim>\<open>self.R.shape\<close>), \<^verbatim>\<open>multigrid\<close> and its four parameters, and then assigns
  \<^verbatim>\<open>self._solver\<close>. The arguments are those written at the call, the instance not
  counted.
\<close>

definition setSolverVcycle_defaults :: "(string \<times> pyval) list" where
  "setSolverVcycle_defaults =
     [(''nlevels'', IntVal 1), (''ncycle'', IntVal 1), (''niter'', IntVal 1),
      (''direct'', BoolVal True)]"

definition Equilibrium_setSolverVcycle ::
  "('g, 's, 'c) library \<Rightarrow> pyval list \<Rightarrow> (string \<times> pyval) list \<Rightarrow> ('g, 's, 'c) equilibrium \<Rightarrow>
     (py_error \<times> ('g, 's, 'c) equilibrium) + ('g, 's, 'c) equilibrium" where
  "Equilibrium_setSolverVcycle lib args kwargs eq =
     (case bind_args (map fst setSolverVcycle_defaults) setSolverVcycle_defaults
             (Instance # args) kwargs of
        Inl err \<Rightarrow> Inl (err, eq)
      | Inr locals \<Rightarrow>
          (case map_result (lookup_name locals module_globals)
                  [''GSsparse'', ''Rmin'', ''Rmax'', ''Zmin'', ''Zmax'', ''self'', ''multigrid'',
                   ''nlevels'', ''ncycle'', ''niter'', ''direct''] of
             Inl err \<Rightarrow> Inl (err, eq)
           | Inr vs \<Rightarrow>
               (case vs of
                  [_, RealVal a, RealVal b, RealVal c, RealVal d, Instance, _,
                   nlevels, ncycle, niter, direct] \<Rightarrow>
                    (case createVcycle lib (int (fst (shape (gridR eq))))
                            (int (snd (shape (gridR eq)))) (GSsparse a b c d)
                            nlevels ncycle niter direct of
                       Inl err \<Rightarrow> Inl (err, eq)
                     | Inr vcycle \<Rightarrow> Inr (eq\<lparr>solver := vcycle\<rparr>))
                | _ \<Rightarrow> Inl (TypeError, eq))))"

subsection \<open>Refining and coarsening\<close>




subsection \<open>The interpolator invariant\<close>

text \<open>
  The interpolator of an Equilibrium is up to date when it is the spline that line 295
  builds from the grid and the flux the object holds now.
\<close>

definition spline_current :: "('g, 's, 'c) library \<Rightarrow> ('g, 's, 'c) equilibrium \<Rightarrow> bool" where
  "spline_current lib eq =
     (interpolator lib (gridR eq) (gridZ eq) (plasma_psi eq) = Inr (psi_func eq))"

subsection \<open>Collaborators to run the class on\<close>

text \<open>
  Stand-ins for the missing collaborators, used where a statement is evaluated on a
  concrete object. None of them tests the size of the grid. The spline object keeps the
  data it was built from; the machine has no coils; the solver created by
  \<^verbatim>\<open>createVcycle\<close> returns its right-hand side; the profiles return the flux as current
  density.
\<close>

type_synonym stub_spline = "real list \<times> real list \<times> field"

definition stub_solver :: linear_solver where
  "stub_solver = (\<lambda>guess rhs. Inr rhs)"


definition stub_library :: "(field, stub_spline, unit) library" where
  "stub_library =
     \<lparr>RectBivariateSpline = (\<lambda>x y z. Inr (x, y, z)),
      spline_call = (\<lambda>s r z dx dy. Inr [[real dx * r + real dy * z]]),
      romb = (\<lambda>ys. Inr (sum_list ys)),
      createVcycle = (\<lambda>nx ny generator nlevels ncycle niter direct. Inr stub_solver),
      multigrid_interpolate = (\<lambda>a. Inr a),
      multigrid_restrict = (\<lambda>a. Inr a),
      mu0 = 1,
      freeBoundary_function = (\<lambda>eq Jtor plasma_psi'. Inr plasma_psi')\<rparr>"

definition stub_machine :: "field machine" where
  "stub_machine =
     \<lparr>createPsiGreens = (\<lambda>R Z. fscale 0 R), calcPsiFromGreens = (\<lambda>g. g),
      machine_Br = (\<lambda>r z. 0), machine_Bz = (\<lambda>r z. 0)\<rparr>"

definition stub_profiles :: profiles_object where
  "stub_profiles = \<lparr>profiles_Jtor = (\<lambda>R Z total_psi. Inr total_psi)\<rparr>"

text \<open>
  An Equilibrium on the 3 by 3 grid over \<open>[1, 3] \<times> [0, 2]\<close> with fixed boundary, whose
  plasma flux is 1 everywhere and whose interpolator is up to date; the linear solver is
  left open.
\<close>

definition example_equilibrium ::
  "linear_solver \<Rightarrow> (field, stub_spline, unit) equilibrium" where
  "example_equilibrium s =
     \<lparr>tokamak = stub_machine, applyBoundary = fixedBoundary,
      Rmin = 1, Rmax = 3, Zmin = 0, Zmax = 2,
      gridR = [[1, 1, 1], [2, 2, 2], [3, 3, 3]],
      gridZ = [[0, 1, 2], [0, 1, 2], [0, 1, 2]],
      plasma_psi = [[1, 1, 1], [1, 1, 1], [1, 1, 1]],
      psi_func = ([1, 2, 3], [0, 1, 2], [[1, 1, 1], [1, 1, 1], [1, 1, 1]]),
      pgreen = [[0, 0, 0], [0, 0, 0], [0, 0, 0]],
      current = 0, solver = s, profiles = None, control = None\<rparr>"

text \<open>
  \<^verbatim>\<open>scipy.integrate.romb\<close> raises \<^verbatim>\<open>ValueError\<close> unless the number of samples is one
  plus a power of two. A stand-in with this test (whose value is the plain sum), the
  library that uses it, and an Equilibrium on the 4 by 4 grid over \<open>[1, 4] \<times> [0, 3]\<close>, as
  the constructor leaves its current and solver, with plasma flux 1 everywhere.
\<close>

definition checked_romb :: "real list \<Rightarrow> py_error + real" where
  "checked_romb ys =
     (if \<exists>k \<in> set [0..<length ys]. length ys - 1 = 2 ^ k then Inr (sum_list ys)
      else Inl ValueError)"

definition checking_library :: "(field, stub_spline, unit) library" where
  "checking_library = stub_library\<lparr>romb := checked_romb\<rparr>"

definition example_equilibrium_4x4 :: "(field, stub_spline, unit) equilibrium" where
  "example_equilibrium_4x4 =
     \<lparr>tokamak = stub_machine, applyBoundary = fixedBoundary,
      Rmin = 1, Rmax = 4, Zmin = 0, Zmax = 3,
      gridR = [[1, 1, 1, 1], [2, 2, 2, 2], [3, 3, 3, 3], [4, 4, 4, 4]],
      gridZ = [[0, 1, 2, 3], [0, 1, 2, 3], [0, 1, 2, 3], [0, 1, 2, 3]],
      plasma_psi = [[1, 1, 1, 1], [1, 1, 1, 1], [1, 1, 1, 1], [1, 1, 1, 1]],
      psi_func = ([1, 2, 3, 4], [0, 1, 2, 3],
                  [[1, 1, 1, 1], [1, 1, 1, 1], [1, 1, 1, 1], [1, 1, 1, 1]]),
      pgreen = [[0, 0, 0, 0], [0, 0, 0, 0], [0, 0, 0, 0], [0, 0, 0, 0]],
      current = 0, solver = stub_solver, profiles = None, control = None\<rparr>"

text \<open>The state of the object after a call, whether the call raised or returned.\<close>

definition final_state :: "(py_error \<times> 'e) + 'e \<Rightarrow> 'e" where
  "final_state r = (case r of Inl (err, e) \<Rightarrow> e | Inr e \<Rightarrow> e)"

section \<open>Properties of the Picard driver\<close>

subsection \<open>The loop and its passes\<close>

lemma passes_loop:
  "finished (picard_passes n ob p c rtol blend kw eq psi) = Some r \<Longrightarrow>
   picard_loop ob p c rtol blend kw eq psi = Some r"
proof (induction n arbitrary: eq psi)
  case 0
  then show ?case
    by (subst picard_loop.simps) (simp add: finished_def split: outcome.splits)
next
  case (Suc n)
  then show ?case
    by (subst picard_loop.simps) (simp add: finished_def split: outcome.splits)
qed

lemma loop_passes:
  assumes "picard_loop ob p c rtol blend kw eq psi = Some r"
  shows "\<exists>n. finished (picard_passes n ob p c rtol blend kw eq psi) = Some r"
  using assms
proof (induction ob p c rtol blend kw eq psi r
    rule: picard_loop.raw_induct[rotated 1, consumes 1, case_names step])
  case (step loop ob p c rtol blend kw eq psi r)
  show ?case
  proof (cases "picard_iteration ob p c rtol blend kw eq psi")
    case (Raise err e)
    with step(2) have "finished (picard_passes 0 ob p c rtol blend kw eq psi) = Some r"
      by (simp add: finished_def)
    then show ?thesis by blast
  next
    case (Break e)
    with step(2) have "finished (picard_passes 0 ob p c rtol blend kw eq psi) = Some r"
      by (simp add: finished_def)
    then show ?thesis by blast
  next
    case (Continue e psi')
    with step(2) have "loop ob p c rtol blend kw e psi' = Some r" by simp
    from step(1)[OF this] obtain n where
      "finished (picard_passes n ob p c rtol blend kw e psi') = Some r" by blast
    with Continue have "finished (picard_passes (Suc n) ob p c rtol blend kw eq psi) = Some r"
      by simp
    then show ?thesis by blast
  qed
qed

lemma finished_Inr: "finished r = Some (Inr e) \<longleftrightarrow> r = Break e"
  by (cases r) (simp_all add: finished_def)



text \<open>
  What a pass that continues hands to the next one: the state after the constraint call
  and the blend of line 93, in which \<^verbatim>\<open>psi_last\<close> is the array that line 79 has already
  overwritten with the difference.
\<close>

lemma iteration_Continue_psi:
  "picard_iteration ob p c rtol blend kw eq psi = Continue e2 psi2 \<Longrightarrow>
   \<exists>eq1. eq_solve ob p kw eq = Inr eq1 \<and> e2 = apply_constrain c eq1 \<and>
     psi2 = fadd (fscale (1 - blend) (eq_psi ob e2))
                 (fscale blend (fsub psi (eq_psi ob eq1)))"
  by (auto simp: picard_iteration_def Let_def split: sum.splits prod.splits if_splits)

subsection \<open>Blending\<close>

text \<open>
  C1. The claim: after a pass that has not converged, the flux carried into the next
  comparison is \<open>(1 - b) * psi_new + b * psi_old\<close>. The docstring of \<^verbatim>\<open>solve\<close> says the
  same. The code subtracts in place on line 79 (\<^verbatim>\<open>psi_last -= psi\<close>) and blends with
  that array on line 93, so it carries \<open>(1 - b) * psi_new + b * (psi_old - psi_new)\<close>.
  With an object whose flux goes from \<open>[[1, 0]]\<close> to \<open>[[3, 0]]\<close>, and \<open>b = 1/2\<close>, the code
  carries \<open>[[1/2, 0]]\<close>; the blend of the claim is \<open>[[2, 0]]\<close>.
\<close>

theorem blend_carries_difference:
  "picard_iteration (constant_object [[3, 0]]) () None (1/1000) (1/2) (solve_kwargs 2 4 2)
      [[1, 0]] [[1, 0]] = Continue [[3, 0]] [[1/2, 0]]
   \<and> fadd (fscale (1 - 1/2) [[3, 0]]) (fscale (1/2) [[1, 0]]) = [[2, 0]]"
  by (simp add: picard_iteration_def Let_def constant_object_def fscale_def fsub_def fabs_def amax_def
      amin_def relchange_below_def apply_constrain_def fadd_def)

subsection \<open>Termination of the loop\<close>






















subsection \<open>Calls of the constraint\<close>

lemma logged_iteration_Break:
  "picard_iteration (logged_object ob) p (Some (logged_constrain c)) rtol blend kw (eq, t0) psi
     = Break (eq', t) \<Longrightarrow> t = t0 @ [Solve]"
  by (auto simp: picard_iteration_def Let_def logged_object_def
      split: sum.splits prod.splits if_splits)

lemma logged_iteration_Continue:
  "picard_iteration (logged_object ob) p (Some (logged_constrain c)) rtol blend kw (eq, t0) psi
     = Continue (eq', t) psi' \<Longrightarrow> t = t0 @ [Solve, Constrain]"
  by (auto simp: picard_iteration_def Let_def logged_object_def logged_constrain_def
      apply_constrain_def split: sum.splits prod.splits if_splits)

lemma logged_passes:
  "picard_passes n (logged_object ob) p (Some (logged_constrain c)) rtol blend kw (eq, t0) psi
     = Break (eq', t)
   \<Longrightarrow> \<exists>k. t = t0 @ Solve # concat (replicate k [Constrain, Solve])"
proof (induction n arbitrary: eq t0 psi)
  case 0
  then have "t = t0 @ [Solve]" by (simp add: logged_iteration_Break)
  then have "t = t0 @ Solve # concat (replicate 0 [Constrain, Solve])" by simp
  then show ?case by blast
next
  case (Suc n)
  show ?case
  proof (cases "picard_iteration (logged_object ob) p (Some (logged_constrain c)) rtol blend kw
      (eq, t0) psi")
    case (Raise err e)
    with Suc.prems show ?thesis by simp
  next
    case (Break e)
    with Suc.prems have "picard_iteration (logged_object ob) p (Some (logged_constrain c)) rtol
        blend kw (eq, t0) psi = Break (eq', t)"
      by simp
    then have "t = t0 @ Solve # concat (replicate 0 [Constrain, Solve])"
      by (simp add: logged_iteration_Break)
    then show ?thesis by blast
  next
    case (Continue e psi')
    obtain e1 t1 where e: "e = (e1, t1)" by (cases e)
    from Continue e have t1: "t1 = t0 @ [Solve, Constrain]"
      by (simp add: logged_iteration_Continue)
    from Suc.prems Continue e have
      "picard_passes n (logged_object ob) p (Some (logged_constrain c)) rtol blend kw (e1, t1) psi'
         = Break (eq', t)"
      by simp
    from Suc.IH[OF this] obtain k where
      "t = t1 @ Solve # concat (replicate k [Constrain, Solve])" by blast
    with t1 have "t = t0 @ Solve # concat (replicate (Suc k) [Constrain, Solve])" by simp
    then show ?thesis by blast
  qed
qed

text \<open>
  C6 as the claim states it: the constraint is called before and again after every
  linear solve, on each pass. On a run that converges in its first pass the calls are
  \<open>[Constrain, Solve]\<close>: the \<^verbatim>\<open>break\<close> of line 87 comes before the call of line 91, so
  nothing follows the solve.
\<close>

theorem constrain_not_called_after_converging_solve:
  "picard_solve (logged_object (constant_object [[0, 1]])) () (Some (logged_constrain id))
      (1/1000) 0 2 4 2 ([[0, 1]], [])
     = Some (Inr ([[0, 1]], [Constrain, Solve]))"
proof -
  have "finished (picard_passes 0 (logged_object (constant_object [[0, 1]])) ()
      (Some (logged_constrain id)) (1/1000) 0 (solve_kwargs 2 4 2) ([[0, 1]], [Constrain]) [[0, 1]])
     = Some (Inr ([[0, 1]], [Constrain, Solve]))"
    by (simp add: finished_def picard_iteration_def Let_def constant_object_def logged_object_def
        fscale_def fsub_def fabs_def amax_def amin_def relchange_below_def)
  from passes_loop[OF this] show ?thesis
    by (simp add: picard_solve_def apply_constrain_def logged_constrain_def logged_object_def
        constant_object_def)
qed

text \<open>
  C6, amended: the constraint is called once before the loop and once at the end of
  every pass that has not converged. So when the driver returns, the calls are
  \<open>Constrain, Solve\<close> repeated once per pass: exactly one constraint call comes before
  every solve, and the last solve is followed by none.
\<close>

theorem constrain_once_before_every_solve:
  "picard_solve (logged_object ob) p (Some (logged_constrain c)) rtol blend niter sublevels ncycle
      (eq, []) = Some (Inr (eq', t))
   \<Longrightarrow> \<exists>k. t = concat (replicate (Suc k) [Constrain, Solve])"
proof -
  assume run: "picard_solve (logged_object ob) p (Some (logged_constrain c)) rtol blend niter
      sublevels ncycle (eq, []) = Some (Inr (eq', t))"
  let ?kw = "solve_kwargs niter sublevels ncycle"
  from run have "picard_loop (logged_object ob) p (Some (logged_constrain c)) rtol blend ?kw
      (c eq, [Constrain]) (eq_psi ob (c eq)) = Some (Inr (eq', t))"
    by (simp add: picard_solve_def apply_constrain_def logged_constrain_def logged_object_def)
  from loop_passes[OF this] obtain n where
    "picard_passes n (logged_object ob) p (Some (logged_constrain c)) rtol blend ?kw
      (c eq, [Constrain]) (eq_psi ob (c eq)) = Break (eq', t)"
    by (auto simp: finished_Inr)
  from logged_passes[OF this] obtain k where
    "t = [Constrain] @ Solve # concat (replicate k [Constrain, Solve])" by blast
  then have "t = concat (replicate (Suc k) [Constrain, Solve])" by simp
  then show ?thesis by blast
qed

theorem constrain_once_before_every_solve_witness:
  "picard_solve (logged_object (constant_object [[0, 1]])) () (Some (logged_constrain id))
      (1/1000) 0 2 4 2 ([[0, 2]], [])
     = Some (Inr ([[0, 1]], [Constrain, Solve, Constrain, Solve]))
   \<and> (\<exists>k. [Constrain, Solve, Constrain, Solve] = concat (replicate (Suc k) [Constrain, Solve]))"
proof -
  have "finished (picard_passes (Suc 0) (logged_object (constant_object [[0, 1]])) ()
      (Some (logged_constrain id)) (1/1000) 0 (solve_kwargs 2 4 2) ([[0, 2]], [Constrain]) [[0, 2]])
     = Some (Inr ([[0, 1]], [Constrain, Solve, Constrain, Solve]))"
    by (simp add: finished_def picard_iteration_def Let_def constant_object_def logged_object_def
        logged_constrain_def apply_constrain_def fadd_def
        fscale_def fsub_def fabs_def amax_def amin_def relchange_below_def)
  from passes_loop[OF this] have run:
    "picard_solve (logged_object (constant_object [[0, 1]])) () (Some (logged_constrain id))
      (1/1000) 0 2 4 2 ([[0, 2]], [])
     = Some (Inr ([[0, 1]], [Constrain, Solve, Constrain, Solve]))"
    by (simp add: picard_solve_def apply_constrain_def logged_constrain_def logged_object_def
        constant_object_def)
  from constrain_once_before_every_solve[OF run] run show ?thesis by blast
qed

section \<open>Properties of the Equilibrium class\<close>

subsection \<open>The driver on an Equilibrium\<close>

lemma solve_call_TypeError:
  "Equilibrium_solve_call lib pr (solve_kwargs niter sublevels ncycle) eq = Inl (TypeError, eq)"
  by (simp add: Equilibrium_solve_call_def solve_kwargs_def bind_args_def)

text \<open>
  C2. For every Equilibrium and every profiles object (and every constraint, tolerance,
  blend and keyword value), the driver ends in its first pass with \<^verbatim>\<open>TypeError\<close>: the
  call of line 73 passes \<^verbatim>\<open>niter\<close>, \<^verbatim>\<open>sublevels\<close> and \<^verbatim>\<open>ncycle\<close>, which
  \<^verbatim>\<open>Equilibrium.solve(self, profiles)\<close> does not accept. The body of \<^verbatim>\<open>solve\<close> has not
  run: the object is as the constraint call before the loop left it.
\<close>

theorem picard_on_Equilibrium_raises_TypeError:
  "picard_solve (Equilibrium_object lib) pr constrain rtol blend niter sublevels ncycle eq
     = Some (Inl (TypeError, apply_constrain constrain eq))
   \<and> picard_iteration (Equilibrium_object lib) pr constrain rtol blend
        (solve_kwargs niter sublevels ncycle) eq psi0 = Raise TypeError eq"
proof
  have "finished (picard_passes 0 (Equilibrium_object lib) pr constrain rtol blend
      (solve_kwargs niter sublevels ncycle) (apply_constrain constrain eq)
      (Equilibrium_psi (apply_constrain constrain eq)))
     = Some (Inl (TypeError, apply_constrain constrain eq))"
    by (simp add: finished_def picard_iteration_def Equilibrium_object_def solve_call_TypeError)
  from passes_loop[OF this] show
    "picard_solve (Equilibrium_object lib) pr constrain rtol blend niter sublevels ncycle eq
     = Some (Inl (TypeError, apply_constrain constrain eq))"
    by (simp add: picard_solve_def Equilibrium_object_def)
next
  show "picard_iteration (Equilibrium_object lib) pr constrain rtol blend
        (solve_kwargs niter sublevels ncycle) eq psi0 = Raise TypeError eq"
    by (simp add: picard_iteration_def Equilibrium_object_def solve_call_TypeError)
qed

subsection \<open>Replacing the solver\<close>

lemma bind_keywords_keys:
  "bind_keywords params bound kws = Inr b \<Longrightarrow> set (map fst bound) \<subseteq> set params \<Longrightarrow>
   set (map fst b) \<subseteq> set params"
proof (induction kws arbitrary: bound)
  case Nil
  then show ?case by simp
next
  case (Cons kv kws)
  obtain k v where kv: "kv = (k, v)" by (cases kv)
  from Cons.prems(1) kv have k: "k \<in> set params"
    and rest: "bind_keywords params (bound @ [(k, v)]) kws = Inr b"
    by (auto split: if_splits)
  from k Cons.prems(2) have "set (map fst (bound @ [(k, v)])) \<subseteq> set params" by simp
  from Cons.IH[OF rest this] show ?case .
qed

lemma bind_args_keys:
  assumes "bind_args params defaults args kwargs = Inr b"
  shows "set (map fst b) \<subseteq> set params \<union> set (map fst defaults)"
proof -
  from assms obtain bound where
    bk: "bind_keywords params (zip params args) kwargs = Inr bound"
    and b: "b = bound @ filter (\<lambda>(p, v). p \<notin> set (map fst bound)) defaults"
    by (auto simp: bind_args_def split: if_splits sum.splits)
  have "set (map fst (zip params args)) \<subseteq> set params"
    by (auto dest: set_zip_leftD)
  from bind_keywords_keys[OF bk this] have "set (map fst bound) \<subseteq> set params" .
  with b show ?thesis by auto
qed

lemma setSolverVcycle_NameError:
  assumes "bind_args (map fst setSolverVcycle_defaults) setSolverVcycle_defaults args kwargs
     = Inr locals"
  shows "map_result (lookup_name locals module_globals)
      [''GSsparse'', ''Rmin'', ''Rmax'', ''Zmin'', ''Zmax'', ''self'', ''multigrid'',
       ''nlevels'', ''ncycle'', ''niter'', ''direct''] = Inl NameError"
proof -
  from bind_args_keys[OF assms] have keys:
    "set (map fst locals) \<subseteq> {''nlevels'', ''ncycle'', ''niter'', ''direct''}"
    by (simp add: setSolverVcycle_defaults_def)
  then have "''GSsparse'' \<notin> fst ` set locals" and "''Rmin'' \<notin> fst ` set locals" by auto
  then have l: "map_of locals ''GSsparse'' = None" "map_of locals ''Rmin'' = None"
    by (simp_all add: map_of_eq_None_iff)
  have g: "lookup_name locals module_globals ''GSsparse'' = Inr Object"
    using l by (simp add: lookup_name_def module_globals_def)
  have r: "lookup_name locals module_globals ''Rmin'' = Inl NameError"
    using l by (simp add: lookup_name_def module_globals_def)
  show ?thesis by (simp add: g r)
qed

lemma bind_keywords_error:
  "bind_keywords params bound kws = Inl err \<Longrightarrow> err = TypeError"
proof (induction kws arbitrary: bound)
  case Nil
  then show ?case by simp
next
  case (Cons kv kws)
  obtain k v where kv: "kv = (k, v)" by (cases kv)
  from Cons.prems kv Cons.IH show ?case
    by (auto split: if_splits)
qed

lemma bind_args_error: "bind_args params defaults args kwargs = Inl err \<Longrightarrow> err = TypeError"
  by (auto simp: bind_args_def split: if_splits sum.splits dest: bind_keywords_error)

lemma setSolverVcycle_raises:
  "Equilibrium_setSolverVcycle lib args kwargs eq = Inl (TypeError, eq)
   \<or> Equilibrium_setSolverVcycle lib args kwargs eq = Inl (NameError, eq)"
proof (cases "bind_args (map fst setSolverVcycle_defaults) setSolverVcycle_defaults
    (Instance # args) kwargs")
  case (Inl err)
  then have "err = TypeError" by (rule bind_args_error)
  with Inl show ?thesis by (simp add: Equilibrium_setSolverVcycle_def)
next
  case (Inr locals)
  from setSolverVcycle_NameError[OF this] Inr show ?thesis
    by (simp add: Equilibrium_setSolverVcycle_def)
qed

text \<open>
  C7. The claim: \<^verbatim>\<open>setSolverVcycle\<close>, called with counts, stores a new V-cycle solver
  built with them; the docstring says "Creates a new linear solver". The method has no
  \<^verbatim>\<open>self\<close> parameter. Called as \<^verbatim>\<open>eq.setSolverVcycle(2, 1, 1)\<close> the instance is bound to
  \<^verbatim>\<open>nlevels\<close> and the body stops at the name \<^verbatim>\<open>Rmin\<close> with \<^verbatim>\<open>NameError\<close>; called with
  \<^verbatim>\<open>nlevels=2, ncycle=1, niter=1\<close> the binding gives \<^verbatim>\<open>nlevels\<close> two values and raises
  \<^verbatim>\<open>TypeError\<close>. Whatever the arguments, the call raises and the stored solver stays.
\<close>

theorem setSolverVcycle_always_raises:
  "Equilibrium_setSolverVcycle lib [IntVal 2, IntVal 1, IntVal 1] [] eq = Inl (NameError, eq)
   \<and> Equilibrium_setSolverVcycle lib []
        [(''nlevels'', IntVal 2), (''ncycle'', IntVal 1), (''niter'', IntVal 1)] eq
      = Inl (TypeError, eq)
   \<and> (\<forall>args kwargs. Equilibrium_setSolverVcycle lib args kwargs eq = Inl (TypeError, eq)
         \<or> Equilibrium_setSolverVcycle lib args kwargs eq = Inl (NameError, eq))"
proof (intro conjI allI)
  fix args kwargs
  show "Equilibrium_setSolverVcycle lib args kwargs eq = Inl (TypeError, eq)
         \<or> Equilibrium_setSolverVcycle lib args kwargs eq = Inl (NameError, eq)"
    by (rule setSolverVcycle_raises)
next
  show "Equilibrium_setSolverVcycle lib [IntVal 2, IntVal 1, IntVal 1] [] eq = Inl (NameError, eq)"
    by (simp add: Equilibrium_setSolverVcycle_def bind_args_def setSolverVcycle_defaults_def
        lookup_name_def module_globals_def)
next
  show "Equilibrium_setSolverVcycle lib []
        [(''nlevels'', IntVal 2), (''ncycle'', IntVal 1), (''niter'', IntVal 1)] eq
      = Inl (TypeError, eq)"
    by (simp add: Equilibrium_setSolverVcycle_def bind_args_def setSolverVcycle_defaults_def)
qed

subsection \<open>Arrays of one shape\<close>

lemma rect_nth: "rect nx ny a \<Longrightarrow> i < nx \<Longrightarrow> length (a ! i) = ny"
  by (simp add: rect_def)

lemma rect_length: "rect nx ny a \<Longrightarrow> length a = nx"
  by (simp add: rect_def)

lemma rect_hd: "rect nx ny a \<Longrightarrow> 0 < nx \<Longrightarrow> length (hd a) = ny"
  by (cases a) (simp_all add: rect_def)

lemma rect_nonempty: "rect nx ny a \<Longrightarrow> 0 < nx \<Longrightarrow> 0 < ny \<Longrightarrow> nonempty a"
  by (auto simp: rect_def nonempty_def)

lemma rect_fscale: "rect nx ny a \<Longrightarrow> rect nx ny (fscale c a)"
  by (auto simp: rect_def fscale_def)

lemma rect_fmul: "rect nx ny a \<Longrightarrow> rect nx ny b \<Longrightarrow> rect nx ny (fmul a b)"
proof -
  assume a: "rect nx ny a" and b: "rect nx ny b"
  have "length r = ny" if "r \<in> set (fmul a b)" for r
  proof -
    from that obtain u v where uv: "(u, v) \<in> set (zip a b)"
      and r: "r = map2 (\<lambda>x y. x * y) u v"
      by (auto simp: fmul_def)
    from uv have "u \<in> set a" "v \<in> set b"
      by (auto dest: set_zip_leftD set_zip_rightD)
    with a b r show ?thesis by (simp add: rect_def)
  qed
  with a b show ?thesis by (simp add: rect_def fmul_def)
qed

lemma nth_fscale: "rect nx ny a \<Longrightarrow> i < nx \<Longrightarrow> j < ny \<Longrightarrow> fscale c a ! i ! j = c * a ! i ! j"
  by (simp add: rect_def fscale_def)

lemma nth_fmul:
  "rect nx ny a \<Longrightarrow> rect nx ny b \<Longrightarrow> i < nx \<Longrightarrow> j < ny \<Longrightarrow>
   fmul a b ! i ! j = a ! i ! j * b ! i ! j"
  by (simp add: rect_def fmul_def)

lemma rect_copy_row: "rect nx ny p \<Longrightarrow> rect nx ny r \<Longrightarrow> i < nx \<Longrightarrow> rect nx ny (copy_row i p r)"
  by (auto simp: rect_def copy_row_def dest!: set_update_subset_insert[THEN subsetD])

lemma rect_copy_column: "rect nx ny p \<Longrightarrow> rect nx ny r \<Longrightarrow> rect nx ny (copy_column j p r)"
  by (auto simp: rect_def copy_column_def dest!: set_zip_leftD)

lemma nth_copy_row:
  "rect nx ny p \<Longrightarrow> rect nx ny r \<Longrightarrow> i < nx \<Longrightarrow> k < nx \<Longrightarrow>
   copy_row k p r ! i ! j = (if i = k then p ! i ! j else r ! i ! j)"
  by (simp add: rect_def copy_row_def nth_list_update)

lemma nth_copy_column:
  "rect nx ny p \<Longrightarrow> rect nx ny r \<Longrightarrow> i < nx \<Longrightarrow> j < ny \<Longrightarrow>
   copy_column k p r ! i ! j = (if j = k then p ! i ! j else r ! i ! j)"
  by (simp add: rect_def copy_column_def nth_list_update)

lemma nth_copy_boundary:
  assumes p: "rect nx ny p" and r: "rect nx ny r" and i: "i < nx" and j: "j < ny"
  shows "copy_boundary p r ! i ! j =
    (if i = 0 \<or> i = nx - 1 \<or> j = 0 \<or> j = ny - 1 then p ! i ! j else r ! i ! j)"
proof -
  from i j have nx: "0 < nx" and ny: "0 < ny" by simp_all
  have len: "length r = nx" "length (hd r) = ny"
    using r nx by (simp_all add: rect_length rect_hd)
  have r1: "rect nx ny (copy_row 0 p r)" using p r nx by (rule rect_copy_row)
  have r2: "rect nx ny (copy_column 0 p (copy_row 0 p r))" using p r1 by (rule rect_copy_column)
  have r3: "rect nx ny (copy_row (nx - 1) p (copy_column 0 p (copy_row 0 p r)))"
    using p r2 nx by (simp add: rect_copy_row)
  let ?a1 = "copy_row 0 p r"
  let ?a2 = "copy_column 0 p ?a1"
  let ?a3 = "copy_row (nx - 1) p ?a2"
  have whole: "copy_boundary p r = copy_column (ny - 1) p ?a3"
    by (simp add: copy_boundary_def Let_def len)
  have c4: "copy_column (ny - 1) p ?a3 ! i ! j = (if j = ny - 1 then p ! i ! j else ?a3 ! i ! j)"
    by (rule nth_copy_column[OF p r3 i j])
  have c3: "?a3 ! i ! j = (if i = nx - 1 then p ! i ! j else ?a2 ! i ! j)"
    using nx by (intro nth_copy_row[OF p r2 i]) simp
  have c2: "?a2 ! i ! j = (if j = 0 then p ! i ! j else ?a1 ! i ! j)"
    by (rule nth_copy_column[OF p r1 i j])
  have c1: "?a1 ! i ! j = (if i = 0 then p ! i ! j else r ! i ! j)"
    using nx by (intro nth_copy_row[OF p r i]) simp
  show ?thesis unfolding whole c4 c3 c2 c1 by auto
qed

lemma nth_right_hand_side:
  assumes "rect nx ny R" "rect nx ny J" "rect nx ny p" "i < nx" "j < ny"
  shows "right_hand_side mu R J p ! i ! j =
    (if i = 0 \<or> i = nx - 1 \<or> j = 0 \<or> j = ny - 1 then p ! i ! j
     else - mu * R ! i ! j * J ! i ! j)"
proof -
  have "rect nx ny (fmul (fscale (- mu) R) J)"
    using assms by (simp add: rect_fmul rect_fscale)
  from nth_copy_boundary[OF assms(3) this assms(4,5)] show ?thesis
    using assms by (simp add: right_hand_side_def nth_fmul[where nx=nx and ny=ny] rect_fscale nth_fscale[where nx=nx and ny=ny])
qed

subsection \<open>Construction\<close>










subsection \<open>The linear solve\<close>

lemma update_spline_current:
  "Equilibrium_updatePlasmaPsi lib p eq0 = Inr eq \<Longrightarrow> spline_current lib eq \<and> plasma_psi eq = p"
  by (auto simp: Equilibrium_updatePlasmaPsi_def Let_def spline_current_def split: sum.splits)

lemma update_keeps:
  "Equilibrium_updatePlasmaPsi lib p eq0 = Inr eq \<Longrightarrow>
   gridR eq = gridR eq0 \<and> gridZ eq = gridZ eq0 \<and> current eq = current eq0 \<and> solver eq = solver eq0"
  by (auto simp: Equilibrium_updatePlasmaPsi_def Let_def split: sum.splits)


lemma solve_Inr:
  assumes "Equilibrium_solve lib pr eq = Inr eq'"
  shows "\<exists>J edged solution eq3 integral.
     profiles_Jtor pr (gridR eq) (gridZ eq) (Equilibrium_psi eq) = Inr J
   \<and> call_boundary lib (applyBoundary eq) (eq\<lparr>profiles := Some pr\<rparr>) J (plasma_psi eq) = Inr edged
   \<and> solver eq edged (right_hand_side (mu0 lib) (gridR eq) J edged) = Inr solution
   \<and> Equilibrium_updatePlasmaPsi lib solution (eq\<lparr>profiles := Some pr, plasma_psi := edged\<rparr>) = Inr eq3
   \<and> romb_romb lib J = Inr integral
   \<and> eq' = eq3\<lparr>current := integral * (gridR eq3 ! 1 ! 0 - gridR eq3 ! 0 ! 0)
                               * (gridZ eq3 ! 0 ! 1 - gridZ eq3 ! 0 ! 0)\<rparr>"
  using assms
  by (auto simp: Equilibrium_solve_def Let_def Equilibrium_psi_def split: sum.splits if_splits prod.splits)

lemma solve_Inl_current:
  "Equilibrium_solve lib pr eq = Inl (err, eq1) \<Longrightarrow> current eq1 = current eq"
  by (auto simp: Equilibrium_solve_def Let_def Equilibrium_updatePlasmaPsi_def
      split: sum.splits if_splits prod.splits)

text \<open>
  C5. In a call of \<^verbatim>\<open>solve\<close> in which the profiles return \<open>J\<close> and the boundary
  function leaves the plasma flux \<open>edged\<close>, all on the \<open>nx\<close> by \<open>ny\<close> grid, the linear
  solver is called with \<open>edged\<close> and a right-hand side that is \<open>- mu0 * R * J\<close> at every
  interior point and \<open>edged\<close> on the first and last row and the first and last column:
  when \<^verbatim>\<open>solve\<close> returns, the new plasma flux is what the solver answered to it, and when
  the solver raises on it, \<^verbatim>\<open>solve\<close> raises the same.
\<close>

theorem solver_receives_right_hand_side:
  assumes "rect nx ny (gridR eq)" and "rect nx ny J" and "rect nx ny edged"
    and "0 < nx" and "0 < ny"
    and "profiles_Jtor pr (gridR eq) (gridZ eq) (Equilibrium_psi eq) = Inr J"
    and "call_boundary lib (applyBoundary eq) (eq\<lparr>profiles := Some pr\<rparr>) J (plasma_psi eq)
           = Inr edged"
  shows "(\<forall>i<nx. \<forall>j<ny. right_hand_side (mu0 lib) (gridR eq) J edged ! i ! j =
            (if i = 0 \<or> i = nx - 1 \<or> j = 0 \<or> j = ny - 1 then edged ! i ! j
             else - mu0 lib * gridR eq ! i ! j * J ! i ! j))
     \<and> (\<forall>eq'. Equilibrium_solve lib pr eq = Inr eq' \<longrightarrow>
           solver eq edged (right_hand_side (mu0 lib) (gridR eq) J edged) = Inr (plasma_psi eq'))
     \<and> (\<forall>err. solver eq edged (right_hand_side (mu0 lib) (gridR eq) J edged) = Inl err \<longrightarrow>
           Equilibrium_solve lib pr eq = Inl (err, eq\<lparr>profiles := Some pr, plasma_psi := edged\<rparr>))"
proof (intro conjI allI impI)
  fix i j assume "i < nx" "j < ny"
  with assms(1-3) show "right_hand_side (mu0 lib) (gridR eq) J edged ! i ! j =
            (if i = 0 \<or> i = nx - 1 \<or> j = 0 \<or> j = ny - 1 then edged ! i ! j
             else - mu0 lib * gridR eq ! i ! j * J ! i ! j)"
    by (rule nth_right_hand_side)
next
  fix eq' assume "Equilibrium_solve lib pr eq = Inr eq'"
  from solve_Inr[OF this] assms(6,7) obtain solution eq3 integral where
    s: "solver eq edged (right_hand_side (mu0 lib) (gridR eq) J edged) = Inr solution"
    and u: "Equilibrium_updatePlasmaPsi lib solution (eq\<lparr>profiles := Some pr, plasma_psi := edged\<rparr>) = Inr eq3"
    and e: "eq' = eq3\<lparr>current := integral * (gridR eq3 ! 1 ! 0 - gridR eq3 ! 0 ! 0)
                               * (gridZ eq3 ! 0 ! 1 - gridZ eq3 ! 0 ! 0)\<rparr>"
    by auto
  from update_spline_current[OF u] e have "plasma_psi eq' = solution" by simp
  with s show "solver eq edged (right_hand_side (mu0 lib) (gridR eq) J edged) = Inr (plasma_psi eq')"
    by simp
next
  fix err assume f: "solver eq edged (right_hand_side (mu0 lib) (gridR eq) J edged) = Inl err"
  have "rect nx ny (fmul (fscale (- mu0 lib) (gridR eq)) J)"
    using assms(1,2) by (simp add: rect_fmul rect_fscale)
  then have n1: "nonempty (fmul (fscale (- mu0 lib) (gridR eq)) J)"
    using assms(4,5) by (rule rect_nonempty)
  have n2: "nonempty edged" using assms(3,4,5) by (rule rect_nonempty)
  show "Equilibrium_solve lib pr eq = Inl (err, eq\<lparr>profiles := Some pr, plasma_psi := edged\<rparr>)"
    using assms(6,7) f n1 n2
    by (simp add: Equilibrium_solve_def Let_def Equilibrium_psi_def)
qed

lemma example_solve:
  "Equilibrium_solve stub_library stub_profiles (example_equilibrium stub_solver)
   = Inr ((example_equilibrium stub_solver)
       \<lparr>profiles := Some stub_profiles,
        plasma_psi := [[0, 0, 0], [0, - 2, 0], [0, 0, 0]],
        psi_func := ([1, 2, 3], [0, 1, 2], [[0, 0, 0], [0, - 2, 0], [0, 0, 0]]),
        current := 9\<rparr>)"
  by (simp add: Equilibrium_solve_def Let_def Equilibrium_psi_def example_equilibrium_def
      stub_profiles_def stub_library_def stub_machine_def stub_solver_def
      call_boundary_def fixedBoundary_function_def zero_edges_def zero_row_def zero_column_def
      right_hand_side_def copy_boundary_def copy_row_def copy_column_def
      fadd_def fmul_def fscale_def nonempty_def
      Equilibrium_updatePlasmaPsi_def interpolator_def column0_def row0_def romb_romb_def)

theorem solver_receives_right_hand_side_witness:
  "rect 3 3 (gridR (example_equilibrium stub_solver))
   \<and> profiles_Jtor stub_profiles (gridR (example_equilibrium stub_solver))
        (gridZ (example_equilibrium stub_solver))
        (Equilibrium_psi (example_equilibrium stub_solver)) = Inr [[1, 1, 1], [1, 1, 1], [1, 1, 1]]
   \<and> call_boundary stub_library (applyBoundary (example_equilibrium stub_solver))
        ((example_equilibrium stub_solver)\<lparr>profiles := Some stub_profiles\<rparr>)
        [[1, 1, 1], [1, 1, 1], [1, 1, 1]] (plasma_psi (example_equilibrium stub_solver))
        = Inr [[0, 0, 0], [0, 1, 0], [0, 0, 0]]
   \<and> right_hand_side (mu0 stub_library) (gridR (example_equilibrium stub_solver))
        [[1, 1, 1], [1, 1, 1], [1, 1, 1]] [[0, 0, 0], [0, 1, 0], [0, 0, 0]] ! 1 ! 1
      = - mu0 stub_library * gridR (example_equilibrium stub_solver) ! 1 ! 1
          * [[1, 1, 1], [1, 1, 1], [1, 1, 1 :: real]] ! 1 ! 1
   \<and> right_hand_side (mu0 stub_library) (gridR (example_equilibrium stub_solver))
        [[1, 1, 1], [1, 1, 1], [1, 1, 1]] [[0, 0, 0], [0, 1, 0], [0, 0, 0]] ! 2 ! 1
      = [[0, 0, 0], [0, 1, 0], [0, 0, 0 :: real]] ! 2 ! 1"
proof -
  let ?E = "example_equilibrium stub_solver"
  let ?J = "[[1, 1, 1], [1, 1, 1], [1, 1, 1 :: real]]"
  let ?B = "[[0, 0, 0], [0, 1, 0], [0, 0, 0 :: real]]"
  have h1: "rect 3 3 (gridR ?E)" by (simp add: rect_def example_equilibrium_def)
  have h2: "rect 3 3 ?J" by (simp add: rect_def)
  have h3: "rect 3 3 ?B" by (simp add: rect_def)
  have h4: "profiles_Jtor stub_profiles (gridR ?E) (gridZ ?E) (Equilibrium_psi ?E) = Inr ?J"
    by (simp add: stub_profiles_def Equilibrium_psi_def example_equilibrium_def fadd_def
        stub_machine_def)
  have h5: "call_boundary stub_library (applyBoundary ?E) (?E\<lparr>profiles := Some stub_profiles\<rparr>)
      ?J (plasma_psi ?E) = Inr ?B"
    by (simp add: call_boundary_def example_equilibrium_def fixedBoundary_function_def
        zero_edges_def zero_row_def zero_column_def)
  from solver_receives_right_hand_side[OF h1 h2 h3 _ _ h4 h5]
  have "\<forall>i<3. \<forall>j<3. right_hand_side (mu0 stub_library) (gridR ?E) ?J ?B ! i ! j =
            (if i = 0 \<or> i = 3 - 1 \<or> j = 0 \<or> j = 3 - 1 then ?B ! i ! j
             else - mu0 stub_library * gridR ?E ! i ! j * ?J ! i ! j)"
    by simp
  then have "right_hand_side (mu0 stub_library) (gridR ?E) ?J ?B ! 1 ! 1
      = - mu0 stub_library * gridR ?E ! 1 ! 1 * ?J ! 1 ! 1"
    and "right_hand_side (mu0 stub_library) (gridR ?E) ?J ?B ! 2 ! 1 = ?B ! 2 ! 1"
    by simp_all
  with h1 h4 h5 show ?thesis by blast
qed

subsection \<open>The plasma current\<close>

lemma map_result_nth:
  "map_result f xs = Inr ys \<Longrightarrow>
   length ys = length xs \<and> (\<forall>i<length xs. f (xs ! i) = Inr (ys ! i))"
proof (induction xs arbitrary: ys)
  case Nil
  then show ?case by simp
next
  case (Cons x xs)
  from Cons.prems obtain y ys' where fx: "f x = Inr y" and rest: "map_result f xs = Inr ys'"
    and ys: "ys = y # ys'"
    by (auto split: sum.splits)
  from Cons.IH[OF rest] have len: "length ys' = length xs"
    and nth: "\<forall>i<length xs. f (xs ! i) = Inr (ys' ! i)" by simp_all
  show ?case
  proof (intro conjI allI impI)
    show "length ys = length (x # xs)" using len ys by simp
  next
    fix i assume "i < length (x # xs)"
    then show "f ((x # xs) ! i) = Inr (ys ! i)"
      using fx nth ys by (cases i) simp_all
  qed
qed

text \<open>
  C9 as the claim states it: after every call of \<^verbatim>\<open>solve\<close> the stored plasma current is
  the Romberg quadrature of the current density of that call times \<open>dR\<close> and \<open>dZ\<close>. On the
  4 by 4 grid the quadrature of line 286 raises \<^verbatim>\<open>ValueError\<close> (4 is not one plus a power
  of two) after line 281 has stored the new flux and its spline: the call leaves the
  object with the new flux and the current it had before, and there is no quadrature of
  the current density for it to equal.
\<close>

theorem current_kept_when_quadrature_raises:
  "Equilibrium_solve checking_library stub_profiles example_equilibrium_4x4
     = Inl (ValueError, example_equilibrium_4x4
         \<lparr>profiles := Some stub_profiles,
          plasma_psi := [[0, 0, 0, 0], [0, - 2, - 2, 0], [0, - 3, - 3, 0], [0, 0, 0, 0]],
          psi_func := ([1, 2, 3, 4], [0, 1, 2, 3],
             [[0, 0, 0, 0], [0, - 2, - 2, 0], [0, - 3, - 3, 0], [0, 0, 0, 0]])\<rparr>)
   \<and> current (final_state (Equilibrium_solve checking_library stub_profiles
         example_equilibrium_4x4)) = current example_equilibrium_4x4
   \<and> profiles_Jtor stub_profiles (gridR example_equilibrium_4x4) (gridZ example_equilibrium_4x4)
        (Equilibrium_psi example_equilibrium_4x4)
       = Inr [[1, 1, 1, 1], [1, 1, 1, 1], [1, 1, 1, 1], [1, 1, 1, 1]]
   \<and> romb checking_library [1, 1, 1, 1] = Inl ValueError"
proof -
  have run: "Equilibrium_solve checking_library stub_profiles example_equilibrium_4x4
     = Inl (ValueError, example_equilibrium_4x4
         \<lparr>profiles := Some stub_profiles,
          plasma_psi := [[0, 0, 0, 0], [0, - 2, - 2, 0], [0, - 3, - 3, 0], [0, 0, 0, 0]],
          psi_func := ([1, 2, 3, 4], [0, 1, 2, 3],
             [[0, 0, 0, 0], [0, - 2, - 2, 0], [0, - 3, - 3, 0], [0, 0, 0, 0]])\<rparr>)"
    by (simp add: Equilibrium_solve_def Let_def Equilibrium_psi_def example_equilibrium_4x4_def
      stub_profiles_def checking_library_def stub_library_def stub_machine_def stub_solver_def
      call_boundary_def fixedBoundary_function_def zero_edges_def zero_row_def zero_column_def
      right_hand_side_def copy_boundary_def copy_row_def copy_column_def
      fadd_def fmul_def fscale_def nonempty_def checked_romb_def
      Equilibrium_updatePlasmaPsi_def interpolator_def column0_def row0_def romb_romb_def)
  have j: "profiles_Jtor stub_profiles (gridR example_equilibrium_4x4)
        (gridZ example_equilibrium_4x4) (Equilibrium_psi example_equilibrium_4x4)
       = Inr [[1, 1, 1, 1], [1, 1, 1, 1], [1, 1, 1, 1], [1, 1, 1, 1]]"
    by (simp add: stub_profiles_def Equilibrium_psi_def example_equilibrium_4x4_def fadd_def
        stub_machine_def)
  have r: "romb checking_library [1, 1, 1, 1] = Inl ValueError"
    by (simp add: checking_library_def checked_romb_def)
  from run j r show ?thesis by (simp add: final_state_def example_equilibrium_4x4_def)
qed

text \<open>
  C9, amended: after every call of \<^verbatim>\<open>solve\<close> that returns, the stored plasma current is
  \<^verbatim>\<open>romb\<close> applied to the list of the values of \<^verbatim>\<open>romb\<close> on the rows of the current
  density \<open>Jtor\<close> that the profiles returned in this call (the quadrature along Z, then
  along R), times \<open>dR = R[1,0] - R[0,0]\<close> and \<open>dZ = Z[0,1] - Z[0,0]\<close>, and
  \<^verbatim>\<open>plasmaCurrent()\<close> returns the stored value. No other operation changes it: a call of
  \<^verbatim>\<open>solve\<close> that raises, \<^verbatim>\<open>_updatePlasmaPsi\<close> and \<^verbatim>\<open>setSolverVcycle\<close> leave it as it
  was.
\<close>

theorem plasma_current_after_returning_solve:
  "(Equilibrium_solve lib pr eq = Inr eq' \<longrightarrow>
      (\<exists>J rows integral.
         profiles_Jtor pr (gridR eq) (gridZ eq) (Equilibrium_psi eq) = Inr J
         \<and> length rows = length J
         \<and> (\<forall>i<length J. romb lib (J ! i) = Inr (rows ! i))
         \<and> romb lib rows = Inr integral
         \<and> current eq' = integral * (gridR eq ! 1 ! 0 - gridR eq ! 0 ! 0)
                                  * (gridZ eq ! 0 ! 1 - gridZ eq ! 0 ! 0)
         \<and> Equilibrium_plasmaCurrent eq' = current eq'))
   \<and> Equilibrium_plasmaCurrent eq = current eq
   \<and> (Equilibrium_solve lib pr eq = Inl (err, eq1) \<longrightarrow> current eq1 = current eq)
   \<and> current (final_state (Equilibrium_updatePlasmaPsi lib p eq)) = current eq
   \<and> current (final_state (Equilibrium_setSolverVcycle lib args kwargs eq)) = current eq"
proof (intro conjI impI)
  assume "Equilibrium_solve lib pr eq = Inr eq'"
  from solve_Inr[OF this] obtain J edged solution eq3 integral where
    j: "profiles_Jtor pr (gridR eq) (gridZ eq) (Equilibrium_psi eq) = Inr J"
    and u: "Equilibrium_updatePlasmaPsi lib solution (eq\<lparr>profiles := Some pr, plasma_psi := edged\<rparr>) = Inr eq3"
    and r: "romb_romb lib J = Inr integral"
    and e: "eq' = eq3\<lparr>current := integral * (gridR eq3 ! 1 ! 0 - gridR eq3 ! 0 ! 0)
                               * (gridZ eq3 ! 0 ! 1 - gridZ eq3 ! 0 ! 0)\<rparr>"
    by blast
  from r obtain rows where m: "map_result (romb lib) J = Inr rows"
    and o: "romb lib rows = Inr integral"
    by (auto simp: romb_romb_def split: sum.splits)
  from map_result_nth[OF m] have rows: "length rows = length J"
    "\<forall>i<length J. romb lib (J ! i) = Inr (rows ! i)" by simp_all
  from update_keeps[OF u] have "gridR eq3 = gridR eq" "gridZ eq3 = gridZ eq" by simp_all
  with e have c: "current eq' = integral * (gridR eq ! 1 ! 0 - gridR eq ! 0 ! 0)
                                  * (gridZ eq ! 0 ! 1 - gridZ eq ! 0 ! 0)"
    by simp
  have "Equilibrium_plasmaCurrent eq' = current eq'" by (simp add: Equilibrium_plasmaCurrent_def)
  with j rows o c show "\<exists>J rows integral.
         profiles_Jtor pr (gridR eq) (gridZ eq) (Equilibrium_psi eq) = Inr J
         \<and> length rows = length J
         \<and> (\<forall>i<length J. romb lib (J ! i) = Inr (rows ! i))
         \<and> romb lib rows = Inr integral
         \<and> current eq' = integral * (gridR eq ! 1 ! 0 - gridR eq ! 0 ! 0)
                                  * (gridZ eq ! 0 ! 1 - gridZ eq ! 0 ! 0)
         \<and> Equilibrium_plasmaCurrent eq' = current eq'"
    by blast
next
  show "Equilibrium_plasmaCurrent eq = current eq" by (simp add: Equilibrium_plasmaCurrent_def)
next
  assume "Equilibrium_solve lib pr eq = Inl (err, eq1)"
  then show "current eq1 = current eq" by (rule solve_Inl_current)
next
  show "current (final_state (Equilibrium_updatePlasmaPsi lib p eq)) = current eq"
    by (simp add: final_state_def Equilibrium_updatePlasmaPsi_def Let_def split: sum.splits)
next
  show "current (final_state (Equilibrium_setSolverVcycle lib args kwargs eq)) = current eq"
    using setSolverVcycle_raises[of lib args kwargs eq] by (auto simp: final_state_def)
qed

theorem plasma_current_after_returning_solve_witness:
  "Equilibrium_solve stub_library stub_profiles (example_equilibrium stub_solver)
     = Inr ((example_equilibrium stub_solver)
       \<lparr>profiles := Some stub_profiles,
        plasma_psi := [[0, 0, 0], [0, - 2, 0], [0, 0, 0]],
        psi_func := ([1, 2, 3], [0, 1, 2], [[0, 0, 0], [0, - 2, 0], [0, 0, 0]]),
        current := 9\<rparr>)
   \<and> (\<exists>J rows integral.
         profiles_Jtor stub_profiles (gridR (example_equilibrium stub_solver))
           (gridZ (example_equilibrium stub_solver))
           (Equilibrium_psi (example_equilibrium stub_solver)) = Inr J
         \<and> length rows = length J
         \<and> (\<forall>i<length J. romb stub_library (J ! i) = Inr (rows ! i))
         \<and> romb stub_library rows = Inr integral
         \<and> 9 = integral * (gridR (example_equilibrium stub_solver) ! 1 ! 0
                            - gridR (example_equilibrium stub_solver) ! 0 ! 0)
                         * (gridZ (example_equilibrium stub_solver) ! 0 ! 1
                            - gridZ (example_equilibrium stub_solver) ! 0 ! 0))"
proof -
  let ?E = "example_equilibrium stub_solver"
  let ?E' = "?E\<lparr>profiles := Some stub_profiles,
        plasma_psi := [[0, 0, 0], [0, - 2, 0], [0, 0, 0]],
        psi_func := ([1, 2, 3], [0, 1, 2], [[0, 0, 0], [0, - 2, 0], [0, 0, 0]]),
        current := 9\<rparr>"
  have run: "Equilibrium_solve stub_library stub_profiles ?E = Inr ?E'"
    by (rule example_solve)
  from plasma_current_after_returning_solve[of stub_library stub_profiles ?E ?E'] run
  obtain J rows integral where
    j: "profiles_Jtor stub_profiles (gridR ?E) (gridZ ?E) (Equilibrium_psi ?E) = Inr J"
    and l: "length rows = length J"
    and n: "\<forall>i<length J. romb stub_library (J ! i) = Inr (rows ! i)"
    and r: "romb stub_library rows = Inr integral"
    and c: "current ?E' = integral * (gridR ?E ! 1 ! 0 - gridR ?E ! 0 ! 0)
                                  * (gridZ ?E ! 0 ! 1 - gridZ ?E ! 0 ! 0)"
    by blast
  from c have "9 = integral * (gridR ?E ! 1 ! 0 - gridR ?E ! 0 ! 0)
                                  * (gridZ ?E ! 0 ! 1 - gridZ ?E ! 0 ! 0)"
    by simp
  with j l n r run show ?thesis by blast
qed

subsection \<open>The interpolator\<close>







subsection \<open>The magnetic field of the plasma\<close>



end
